theory Spec2Isabelle
  imports Complex_Main
begin

section \<open>Silhouette measurement engine of the Yeadon model generator\<close>

text \<open>
  The development embeds the measurement functions of \<^verbatim>\<open>src/utils/get_maximum.py\<close> and the
  methods of the same names inside \<^verbatim>\<open>YeadonModel\<close> (\<^verbatim>\<open>src/im2meas.py\<close>).

  Conventions of the embedding.
  \<^item> Python floats are idealised as \<^typ>\<open>real\<close>: \<^verbatim>\<open>distance += 0.01\<close> adds exactly
    \<open>1/100\<close>, and \<^verbatim>\<open>np.sin\<close>, \<^verbatim>\<open>np.cos\<close>, \<^verbatim>\<open>np.arctan2\<close>, \<^verbatim>\<open>np.pi\<close> are the
    mathematical functions and constant. NaN and the infinities are not values of the model.
  \<^item> A landmark is a pair \<open>(x, y)\<close>; the source reads \<^verbatim>\<open>start[0:2]\<close>.
  \<^item> A raster is a numpy array of shape \<open>(rows, cols, chans)\<close>, as \<^verbatim>\<open>_canny_edges\<close>
    builds it (\<^verbatim>\<open>np.zeros(image.shape)\<close>); a two-dimensional raster is the case of one
    channel.
  \<^item> A Python exception is a value \<open>Inl e\<close> of a sum type; a loop that may run forever
    returns an \<^typ>\<open>'a option\<close> whose \<open>None\<close> stands for "does not return".
  \<^item> Source names are kept; a leading underscore is dropped (\<^verbatim>\<open>_get_maximum\<close> is
    \<open>get_maximum\<close>), and the parameter \<^verbatim>\<open>end\<close> is written \<open>endp\<close>.
\<close>

subsection \<open>Rasters, exceptions and the ray cast\<close>

datatype error = ValueError | AxisError | IndexError | TypeError

record raster =
  rows :: nat
  cols :: nat
  chans :: nat
  val :: "nat \<Rightarrow> nat \<Rightarrow> nat \<Rightarrow> int"

text \<open>Python's \<^verbatim>\<open>int(float)\<close> truncates toward zero.\<close>

definition py_int :: "real \<Rightarrow> int" where
  "py_int r = (if 0 \<le> r then \<lfloor>r\<rfloor> else \<lceil>r\<rceil>)"

text \<open>
  \<^verbatim>\<open>pt_from(origin, angle, distance)\<close> (\<^verbatim>\<open>get_maximum.py\<close> lines 4--11, and nested in
  \<^verbatim>\<open>im2meas.py\<close>): the result is the array \<^verbatim>\<open>[int(y), int(x)]\<close>.
\<close>

definition pt_from :: "real \<times> real \<Rightarrow> real \<Rightarrow> real \<Rightarrow> int \<times> int" where
  "pt_from origin angle distance =
     (let x = snd origin + sin angle * distance;
          y = fst origin + cos angle * distance
      in (py_int y, py_int x))"

text \<open>
  The two tests of the loop of \<^verbatim>\<open>find_edge\<close>, on the pair \<^verbatim>\<open>x, y = pt_from(...)\<close>:
  \<^verbatim>\<open>x < 0 or x >= edges.shape[0] or y < 0 or y >= edges.shape[1]\<close> and
  \<^verbatim>\<open>np.any(edges[x, y] == 255)\<close>.
\<close>

definition out_of_bounds :: "raster \<Rightarrow> int \<Rightarrow> int \<Rightarrow> bool" where
  "out_of_bounds edges x y \<longleftrightarrow>
     x < 0 \<or> x \<ge> int (rows edges) \<or> y < 0 \<or> y \<ge> int (cols edges)"

definition hit_zone :: "raster \<Rightarrow> int \<Rightarrow> int \<Rightarrow> bool" where
  "hit_zone edges x y \<longleftrightarrow> (\<exists>ch < chans edges. val edges (nat x) (nat y) ch = 255)"

text \<open>
  A bound on the distances at which a ray from \<open>p\<close> can still be inside the raster; it
  is the measure of the termination proof of the loop.
\<close>

definition march_bound :: "raster \<Rightarrow> real \<times> real \<Rightarrow> real" where
  "march_bound edges p = \<bar>fst p\<bar> + \<bar>snd p\<bar> + real (rows edges) + real (cols edges) + 2"

lemma py_int_bounds: "0 \<le> py_int v \<Longrightarrow> py_int v < int n \<Longrightarrow> \<bar>v\<bar> < real n + 1"
  unfolding py_int_def by (auto split: if_splits) linarith+

lemma abs_sin_cos_ge_1: "1 \<le> \<bar>cos a\<bar> + \<bar>sin (a::real)\<bar>"
proof -
  have "\<bar>cos a\<bar> \<le> 1" "\<bar>sin a\<bar> \<le> 1" by (simp_all add: abs_le_iff)
  then have "(cos a)\<^sup>2 \<le> \<bar>cos a\<bar>" "(sin a)\<^sup>2 \<le> \<bar>sin a\<bar>"
    by (metis abs_ge_zero mult_left_le power2_abs power2_eq_square)+
  moreover have "(sin a)\<^sup>2 + (cos a)\<^sup>2 = 1" by simp
  ultimately show ?thesis by linarith
qed

lemma in_bounds_distance:
  assumes "\<not> out_of_bounds edges (fst (pt_from p a d)) (snd (pt_from p a d))"
  shows "\<bar>d\<bar> < march_bound edges p"
proof -
  let ?r = "fst p + cos a * d" and ?c = "snd p + sin a * d"
  from assms have r: "\<bar>?r\<bar> < real (rows edges) + 1" and c: "\<bar>?c\<bar> < real (cols edges) + 1"
    by (auto simp: out_of_bounds_def pt_from_def Let_def not_le not_less intro!: py_int_bounds)
  have "\<bar>cos a * d\<bar> \<le> \<bar>?r\<bar> + \<bar>fst p\<bar>" "\<bar>sin a * d\<bar> \<le> \<bar>?c\<bar> + \<bar>snd p\<bar>" by linarith+
  moreover have "\<bar>d\<bar> * 1 \<le> \<bar>d\<bar> * (\<bar>cos a\<bar> + \<bar>sin a\<bar>)"
    by (rule mult_left_mono[OF abs_sin_cos_ge_1]) simp
  then have "\<bar>d\<bar> \<le> \<bar>cos a * d\<bar> + \<bar>sin a * d\<bar>"
    by (simp add: abs_mult algebra_simps)
  ultimately show ?thesis using r c unfolding march_bound_def by linarith
qed

text \<open>
  The \<^verbatim>\<open>while True\<close> loop of \<^verbatim>\<open>find_edge\<close> (\<^verbatim>\<open>get_maximum.py\<close> lines 15--24,
  \<^verbatim>\<open>im2meas.py\<close> lines 482--492) with the loop variable \<^verbatim>\<open>distance\<close> as argument; the
  list \<^verbatim>\<open>save\<close> is returned empty on a miss and with the one pair \<^verbatim>\<open>(y, x)\<close> on a hit.
  The inner loop of \<^verbatim>\<open>get_maximum_range\<close> is the same loop, written out again in the source.
\<close>

function find_edge_loop :: "raster \<Rightarrow> real \<times> real \<Rightarrow> real \<Rightarrow> real \<Rightarrow> (int \<times> int) list" where
  "find_edge_loop edges p1 angle_radians distance =
     (let (x, y) = pt_from p1 angle_radians distance
      in if out_of_bounds edges x y then []
         else if hit_zone edges x y then [(y, x)]
         else find_edge_loop edges p1 angle_radians (distance + 0.01))"
  by pat_completeness auto

termination
proof (relation "measure (\<lambda>(edges, p1, a, d). nat \<lceil>(march_bound edges p1 - d) * 100\<rceil>)", goal_cases)
  case 1
  show ?case by simp
next
  case (2 edges p1 a d xy x y)
  then have "\<not> out_of_bounds edges (fst (pt_from p1 a d)) (snd (pt_from p1 a d))"
    by (metis fst_conv snd_conv)
  then have "d < march_bound edges p1"
    using in_bounds_distance[of edges p1 a d] by linarith
  then have "0 < (march_bound edges p1 - d) * 100" by simp
  moreover have "(march_bound edges p1 - (d + 0.01)) * 100 = (march_bound edges p1 - d) * 100 - 1"
    by (simp add: algebra_simps)
  ultimately show ?case
    by simp linarith
qed

definition find_edge :: "real \<times> real \<Rightarrow> real \<times> real \<Rightarrow> real \<Rightarrow> raster \<Rightarrow> (int \<times> int) list" where
  "find_edge p1 p2 angle_radians edges = find_edge_loop edges p1 angle_radians 0"

subsection \<open>The measurement functions\<close>

text \<open>
  Vocabulary for the state of the march at distance \<open>d\<close>: the pixel is outside the raster,
  the pixel is a boundary pixel, and the pair the loop would save.
\<close>

definition ray_out :: "raster \<Rightarrow> real \<times> real \<Rightarrow> real \<Rightarrow> real \<Rightarrow> bool" where
  "ray_out edges p a d = (case pt_from p a d of (x, y) \<Rightarrow> out_of_bounds edges x y)"

definition ray_hit :: "raster \<Rightarrow> real \<times> real \<Rightarrow> real \<Rightarrow> real \<Rightarrow> bool" where
  "ray_hit edges p a d = (case pt_from p a d of (x, y) \<Rightarrow> hit_zone edges x y)"

definition ray_save :: "real \<times> real \<Rightarrow> real \<Rightarrow> real \<Rightarrow> int \<times> int" where
  "ray_save p a d = (case pt_from p a d of (x, y) \<Rightarrow> (y, x))"

type_synonym hits = "(int \<times> int) list"

text \<open>
  \<^verbatim>\<open>np.arctan2(y, x)\<close> on the reals (numpy's quadrant convention; the model has no
  signed zero).
\<close>

definition arctan2 :: "real \<Rightarrow> real \<Rightarrow> real" where
  "arctan2 y x =
     (if 0 < x then arctan (y / x)
      else if x < 0 then (if 0 \<le> y then arctan (y / x) + pi else arctan (y / x) - pi)
      else if 0 < y then pi / 2
      else if y < 0 then - (pi / 2)
      else 0)"

text \<open>
  \<^verbatim>\<open>np.array(a) - np.array(b)\<close> for two lists of integer pairs. \<^verbatim>\<open>np.array([])\<close> has
  shape \<open>(0,)\<close> and a list of \<open>n > 0\<close> pairs has shape \<open>(n, 2)\<close>; shapes \<open>(0,)\<close> and
  \<open>(n, 2)\<close> do not broadcast, nor do \<open>(n, 2)\<close> and \<open>(m, 2)\<close> with \<open>n \<noteq> m\<close> and neither
  equal to one: numpy raises \<^verbatim>\<open>ValueError\<close>. \<^verbatim>\<open>np.linalg.norm\<close> without an axis is the
  Frobenius norm, \<open>0\<close> on the empty array.
\<close>

definition psub :: "int \<times> int \<Rightarrow> int \<times> int \<Rightarrow> int \<times> int" where
  "psub u w = (fst u - fst w, snd u - snd w)"

definition np_sub :: "hits \<Rightarrow> hits \<Rightarrow> error + hits" where
  "np_sub a b =
     (if a = [] \<and> b = [] then Inr []
      else if a = [] \<or> b = [] then Inl ValueError
      else if length a = length b then Inr (map2 psub a b)
      else if length a = 1 then Inr (map (psub (hd a)) b)
      else if length b = 1 then Inr (map (\<lambda>u. psub u (hd b)) a)
      else Inl ValueError)"

definition np_norm :: "hits \<Rightarrow> real" where
  "np_norm v = sqrt (\<Sum>u\<leftarrow>v. real_of_int ((fst u)\<^sup>2 + (snd u)\<^sup>2))"

text \<open>
  \<^verbatim>\<open>get_points\<close> (\<^verbatim>\<open>get_maximum.py\<close> lines 28--33): both landmarks with their coordinates
  swapped, so \<open>p1 = (start_y, start_x)\<close> is in (row, column) order.
\<close>

definition get_points :: "real \<times> real \<Rightarrow> real \<times> real \<Rightarrow> (real \<times> real) \<times> (real \<times> real)" where
  "get_points start endp =
     (let p1 = (snd start, fst start);
          p2 = (snd endp, fst endp)
      in (p1, p2))"

text \<open>
  \<^verbatim>\<open>_get_maximum\<close> (\<^verbatim>\<open>get_maximum.py\<close> lines 85--93; \<^verbatim>\<open>im2meas.py\<close> lines 469--508, the
  same code with \<^verbatim>\<open>edges\<close> captured by the nested \<^verbatim>\<open>find_edge\<close>), and its two entry
  points.
\<close>

definition get_maximum :: "real \<times> real \<Rightarrow> real \<times> real \<Rightarrow> raster \<Rightarrow> real \<Rightarrow> real \<Rightarrow> error + real" where
  "get_maximum start endp edges angle is_start =
     (let (p1, p2) = get_points start endp;
          vector = (fst p2 - fst p1, snd p2 - snd p1);
          angle_radians = arctan2 (snd vector) (fst vector) - angle;
          max1 = find_edge p1 p2 angle_radians edges;
          angle_radians = (arctan2 (snd vector) (fst vector) + angle) * is_start;
          max2 = find_edge p1 p2 angle_radians edges
      in case np_sub max1 max2 of
           Inl e \<Rightarrow> Inl e
         | Inr v \<Rightarrow> Inr (np_norm v))"

definition get_maximum_line :: "real \<times> real \<Rightarrow> real \<times> real \<Rightarrow> raster \<Rightarrow> error + real" where
  "get_maximum_line start endp edges = get_maximum start endp edges 0 (- 1)"

definition get_maximum_start :: "real \<times> real \<Rightarrow> real \<times> real \<Rightarrow> raster \<Rightarrow> error + real" where
  "get_maximum_start start endp edges = get_maximum start endp edges (pi / 2) 1"

text \<open>Rasters used as concrete inputs.\<close>

definition blank :: "nat \<Rightarrow> nat \<Rightarrow> raster" where
  "blank r c = \<lparr>rows = r, cols = c, chans = 1, val = (\<lambda>x y ch. 0)\<rparr>"

definition left_edge :: raster where
  "left_edge = \<lparr>rows = 1, cols = 2, chans = 1, val = (\<lambda>x y ch. if y = 0 then 255 else 0)\<rparr>"





text \<open>
  \<^verbatim>\<open>_stadium_perimeter\<close> and \<^verbatim>\<open>_circle_perimeter\<close> (\<^verbatim>\<open>im2meas.py\<close> lines 752--760).
\<close>

definition stadium_perimeter :: "real \<Rightarrow> real \<Rightarrow> real" where
  "stadium_perimeter width depth =
     (let radius = depth / 2;
          a = width - depth;
          perimeter = 2 * (pi * radius + a)
      in perimeter)"

definition circle_perimeter :: "real \<Rightarrow> real" where
  "circle_perimeter diag = (let r = diag / 2 in 2 * pi * r)"

text \<open>
  \<^verbatim>\<open>np.linalg.norm(vector, axis=1)\<close>: the norm of every row of a two-dimensional array;
  on the one-dimensional empty array numpy raises \<^verbatim>\<open>AxisError\<close>.
\<close>

definition np_norm_axis1 :: "hits \<Rightarrow> error + real list" where
  "np_norm_axis1 v =
     (if v = [] then Inl AxisError
      else Inr (map (\<lambda>u. sqrt (real_of_int ((fst u)\<^sup>2 + (snd u)\<^sup>2))) v))"

text \<open>
  \<^verbatim>\<open>get_max_approx\<close> of \<^verbatim>\<open>get_maximum.py\<close> (lines 36--50). The \<^verbatim>\<open>for\<close> loop runs over the
  entries of \<^verbatim>\<open>norms\<close> with the index \<open>i\<close>; \<^verbatim>\<open>break\<close> returns the index saved so far. A
  bare \<^verbatim>\<open>return\<close> (after the message is printed) is the value \<open>None\<close>.
\<close>

fun max_approx_loop :: "real list \<Rightarrow> real \<Rightarrow> nat \<Rightarrow> real \<Rightarrow> nat \<Rightarrow> nat" where
  "max_approx_loop [] norms0 i max_norm save_index = save_index"
| "max_approx_loop (norm_i # rest) norms0 i max_norm save_index =
     (if norm_i > max_norm then
        (if norm_i > norms0 * 1.5 then save_index
         else max_approx_loop rest norms0 (Suc i) norm_i i)
      else max_approx_loop rest norms0 (Suc i) max_norm save_index)"

definition get_max_approx :: "hits \<Rightarrow> hits \<Rightarrow> error + nat option" where
  "get_max_approx top_arr bottom_arr =
     (if length top_arr \<noteq> length bottom_arr then Inr None
      else case np_sub top_arr bottom_arr of
             Inl e \<Rightarrow> Inl e
           | Inr vector \<Rightarrow>
               (case np_norm_axis1 vector of
                  Inl e \<Rightarrow> Inl e
                | Inr norms \<Rightarrow>
                    (case norms of
                       [] \<Rightarrow> Inl IndexError
                     | norms0 # _ \<Rightarrow> Inr (Some (max_approx_loop norms norms0 0 norms0 0)))))"

text \<open>
  The \<^verbatim>\<open>get_max_approx\<close> nested in \<^verbatim>\<open>YeadonModel._get_maximum_point\<close> (\<^verbatim>\<open>im2meas.py\<close>
  lines 526--538): \<^verbatim>\<open>max_norm\<close> starts at 0 and the loop has no \<^verbatim>\<open>break\<close>.
\<close>

fun max_approx_loop_nested :: "real list \<Rightarrow> nat \<Rightarrow> real \<Rightarrow> nat \<Rightarrow> nat" where
  "max_approx_loop_nested [] i max_norm save_index = save_index"
| "max_approx_loop_nested (norm_i # rest) i max_norm save_index =
     (if norm_i > max_norm then max_approx_loop_nested rest (Suc i) norm_i i
      else max_approx_loop_nested rest (Suc i) max_norm save_index)"

definition get_max_approx_nested :: "hits \<Rightarrow> hits \<Rightarrow> error + nat option" where
  "get_max_approx_nested top_arr bottom_arr =
     (if length top_arr \<noteq> length bottom_arr then Inr None
      else case np_sub top_arr bottom_arr of
             Inl e \<Rightarrow> Inl e
           | Inr vector \<Rightarrow>
               (case np_norm_axis1 vector of
                  Inl e \<Rightarrow> Inl e
                | Inr norms \<Rightarrow> Inr (Some (max_approx_loop_nested norms 0 0 0))))"


text \<open>
  \<^verbatim>\<open>np.linspace(a, b, num)\<close>: \<open>num\<close> evenly spaced values from \<open>a\<close> to \<open>b\<close>, both
  included.
\<close>

definition linspace :: "real \<Rightarrow> real \<Rightarrow> nat \<Rightarrow> real list" where
  "linspace a b num = map (\<lambda>i. a + real i * ((b - a) / real (num - 1))) [0..<num]"

definition vector_angle_plus :: "real \<times> real \<Rightarrow> real \<times> real \<Rightarrow> real" where
  "vector_angle_plus p1 p2 =
     (let vector = (fst p2 - fst p1, snd p2 - snd p1)
      in arctan2 (snd vector) (fst vector) + pi / 2)"

definition vector_angle_minus :: "real \<times> real \<Rightarrow> real \<times> real \<Rightarrow> real" where
  "vector_angle_minus p1 p2 =
     (let vector = (fst p2 - fst p1, snd p2 - snd p1);
          angle_radians = arctan2 (snd vector) (fst vector) - pi / 2
      in angle_radians)"

text \<open>
  \<^verbatim>\<open>get_maximum_range\<close> (\<^verbatim>\<open>get_maximum.py\<close> lines 64--83; nested in \<^verbatim>\<open>im2meas.py\<close>, lines
  557--576, where \<^verbatim>\<open>result\<close> and \<^verbatim>\<open>edges\<close> are captured): for every sample point the
  march of \<^verbatim>\<open>find_edge\<close>, the hits appended to one list. A sample whose ray misses adds
  nothing.
\<close>

fun get_maximum_range :: "real \<Rightarrow> (real \<times> real) list \<Rightarrow> raster \<Rightarrow> hits" where
  "get_maximum_range angle_radians [] edges = []"
| "get_maximum_range angle_radians (point # result) edges =
     find_edge_loop edges point angle_radians 0 @ get_maximum_range angle_radians result edges"

text \<open>
  \<^verbatim>\<open>result[index][::-1]\<close>: indexing a list with \<^verbatim>\<open>None\<close> raises \<^verbatim>\<open>TypeError\<close>, with an
  index past the end \<^verbatim>\<open>IndexError\<close>; the pair \<open>(y, x)\<close> found is returned reversed.
\<close>

definition sample_at :: "(real \<times> real) list \<Rightarrow> nat option \<Rightarrow> error + real \<times> real" where
  "sample_at result index =
     (case index of
        None \<Rightarrow> Inl TypeError
      | Some i \<Rightarrow> if i < length result then Inr (snd (result ! i), fst (result ! i))
                  else Inl IndexError)"

text \<open>
  \<^verbatim>\<open>get_maximum_point\<close> of \<^verbatim>\<open>get_maximum.py\<close> (lines 101--117), and
  \<^verbatim>\<open>YeadonModel._get_maximum_point\<close> (\<^verbatim>\<open>im2meas.py\<close> lines 578--592), which differs in the
  \<^verbatim>\<open>get_max_approx\<close> it calls.
\<close>

definition get_maximum_point :: "real \<times> real \<Rightarrow> real \<times> real \<Rightarrow> raster \<Rightarrow> error + real \<times> real" where
  "get_maximum_point start endp edges =
     (let (p1, p2) = get_points start endp;
          x_values = linspace (snd p1) (snd p2) 100;
          y_values = linspace (fst p1) (fst p2) 100;
          result = map (\<lambda>(x, y). (y, x)) (zip x_values y_values);
          angle_radians = vector_angle_plus p1 p2;
          r_side = get_maximum_range angle_radians result edges;
          angle_radians = vector_angle_minus p1 p2;
          l_side = get_maximum_range angle_radians result edges
      in case get_max_approx r_side l_side of
           Inl e \<Rightarrow> Inl e
         | Inr index \<Rightarrow> sample_at result index)"

definition YeadonModel_get_maximum_point ::
  "real \<times> real \<Rightarrow> real \<times> real \<Rightarrow> raster \<Rightarrow> error + real \<times> real" where
  "YeadonModel_get_maximum_point start endp edges =
     (let (p1, p2) = get_points start endp;
          x_values = linspace (snd p1) (snd p2) 100;
          y_values = linspace (fst p1) (fst p2) 100;
          result = map (\<lambda>(x, y). (y, x)) (zip x_values y_values);
          angle_radians = vector_angle_plus p1 p2;
          r_side = get_maximum_range angle_radians result edges;
          angle_radians = vector_angle_minus p1 p2;
          l_side = get_maximum_range angle_radians result edges
      in case get_max_approx_nested r_side l_side of
           Inl e \<Rightarrow> Inl e
         | Inr index \<Rightarrow> sample_at result index)"

text \<open>
  The \<open>i\<close>-th of the 100 sample points of the segment, as the pair (row, column) that the
  source stores in \<^verbatim>\<open>result\<close>.
\<close>

definition sample_rc :: "real \<times> real \<Rightarrow> real \<times> real \<Rightarrow> nat \<Rightarrow> real \<times> real" where
  "sample_rc start endp i =
     (snd start + real i * ((snd endp - snd start) / 99),
      fst start + real i * ((fst endp - fst start) / 99))"







text \<open>
  Python's \<^verbatim>\<open>max(a, b)\<close> on two lists of integer pairs: lists and tuples compare
  lexicographically, and \<^verbatim>\<open>max\<close> returns its first argument unless the second is larger.
\<close>

fun hit_less :: "int \<times> int \<Rightarrow> int \<times> int \<Rightarrow> bool" where
  "hit_less (a, b) (c, d) = (a < c \<or> (a = c \<and> b < d))"

fun hits_less :: "hits \<Rightarrow> hits \<Rightarrow> bool" where
  "hits_less [] [] = False"
| "hits_less [] (y # ys) = True"
| "hits_less (x # xs) [] = False"
| "hits_less (x # xs) (y # ys) = (if x = y then hits_less xs ys else hit_less x y)"

definition py_max :: "hits \<Rightarrow> hits \<Rightarrow> hits" where
  "py_max a b = (if hits_less a b then b else a)"

text \<open>
  The two \<^verbatim>\<open>while True\<close> loops of \<^verbatim>\<open>get_maximum_pit\<close> (\<^verbatim>\<open>get_maximum.py\<close> lines 132--143)
  differ in the sign of the angle step only; \<open>pit_climb\<close> is the loop with the step as a
  parameter (\<open>0.01\<close> for the first loop, \<open>- 0.01\<close> for the second). It returns the pair
  (last cast, saved cast) with which the loop is left, and \<open>None\<close> when the loop runs forever.
\<close>

partial_function (option) pit_climb ::
  "raster \<Rightarrow> real \<times> real \<Rightarrow> real \<times> real \<Rightarrow> real \<Rightarrow> real \<Rightarrow> hits \<Rightarrow> (hits \<times> hits) option" where
  "pit_climb edges point point2 step angle max_save =
     (let angle' = angle + step;
          max_last = find_edge point point2 angle' edges
      in if np_norm max_last < np_norm max_save then Some (max_last, max_save)
         else pit_climb edges point point2 step angle' max_last)"

text \<open>
  \<^verbatim>\<open>get_maximum_pit\<close> (\<^verbatim>\<open>get_maximum.py\<close> lines 119--149). \<^verbatim>\<open>delta\<close> is computed and not used,
  but its subtraction can raise; \<^verbatim>\<open>point[0]\<close> raises \<^verbatim>\<open>IndexError\<close> on the empty list.
\<close>

definition get_maximum_pit :: "real \<times> real \<Rightarrow> raster \<Rightarrow> (error + (int \<times> int) \<times> int) option" where
  "get_maximum_pit start edges =
     (let point = (snd start, fst start);
          point2 = (fst point + 5, snd point);
          vector = (fst point2 - fst point, snd point2 - snd point);
          angle_radians = arctan2 (snd vector) (fst vector);
          max_save = find_edge point point2 angle_radians edges
      in case pit_climb edges point point2 0.01 angle_radians max_save of
           None \<Rightarrow> None
         | Some (max_last_right, max_save_right) \<Rightarrow>
             (case pit_climb edges point point2 (- 0.01) angle_radians max_save of
                None \<Rightarrow> None
              | Some (max_last_left, max_save_left) \<Rightarrow>
                  Some (case np_sub max_last_left max_last_right of
                          Inl e \<Rightarrow> Inl e
                        | Inr delta \<Rightarrow>
                            (let distance = np_norm (py_max max_save_left max_last_right);
                                 point = py_max max_save_left max_last_right
                             in case point of
                                  [] \<Rightarrow> Inl IndexError
                                | p # _ \<Rightarrow> Inr (p, py_int distance)))))"

text \<open>
  The cast of \<^verbatim>\<open>get_maximum_pit\<close> at the \<open>j\<close>-th angle step from the initial direction
  (\<open>j > 0\<close>: the increasing climb, \<open>j < 0\<close>: the decreasing climb).
\<close>

definition pit_hit :: "real \<times> real \<Rightarrow> raster \<Rightarrow> int \<Rightarrow> hits" where
  "pit_hit start edges j =
     find_edge (snd start, fst start) (snd start + 5, fst start) (real_of_int j * 0.01) edges"

definition pit_raster :: raster where
  "pit_raster = \<lparr>rows = 61, cols = 82, chans = 1,
                  val = (\<lambda>x y ch. if x = 60 \<and> y = 80 then 255 else 0)\<rparr>"

text \<open>
  A numpy slice bound on an axis of length \<open>n\<close>: a negative bound counts from the end, and
  the result is clamped to \<open>[0, n]\<close>.
\<close>

definition slice_index :: "nat \<Rightarrow> int \<Rightarrow> nat" where
  "slice_index n i =
     (let j = (if i < 0 then i + int n else i)
      in if j < 0 then 0 else if j > int n then n else nat j)"

text \<open>
  \<^verbatim>\<open>crop(image, position_1, position_2)\<close> (\<^verbatim>\<open>im2meas.py\<close> lines 595--619, 650--673,
  699--722): the copy \<^verbatim>\<open>image[y1:y2, x1:x2]\<close> after the two corners are put in order.
\<close>

definition crop :: "raster \<Rightarrow> real \<times> real \<Rightarrow> real \<times> real \<Rightarrow> raster" where
  "crop im position_1 position_2 =
     (let x1 = py_int (fst position_1); y1 = py_int (snd position_1);
          x2 = py_int (fst position_2); y2 = py_int (snd position_2);
          (x1, x2) = (if x1 > x2 then (x2, x1) else (x1, x2));
          (y1, y2) = (if y1 > y2 then (y2, y1) else (y1, y2));
          r1 = slice_index (rows im) y1; r2 = slice_index (rows im) y2;
          c1 = slice_index (cols im) x1; c2 = slice_index (cols im) x2
      in \<lparr>rows = r2 - r1, cols = c2 - c1, chans = chans im,
          val = (\<lambda>x y ch. val im (r1 + x) (c1 + y) ch)\<rparr>)"

text \<open>
  \<^verbatim>\<open>np.where(cond)\<close>: the indices (row, column, channel) of the entries that satisfy the
  condition, in row-major order. \<^verbatim>\<open>np.where(...)[1][0]\<close> is the column of the first of them,
  \<^verbatim>\<open>np.where(...)[0][1]\<close> the row of the second; both raise \<^verbatim>\<open>IndexError\<close> when the list
  is too short.
\<close>

definition np_where :: "raster \<Rightarrow> (int \<Rightarrow> bool) \<Rightarrow> (nat \<times> nat \<times> nat) list" where
  "np_where im cond =
     concat (map (\<lambda>x. concat (map (\<lambda>y. concat (map (\<lambda>ch.
        if cond (val im x y ch) then [(x, y, ch)] else [])
        [0..<chans im])) [0..<cols im])) [0..<rows im])"

text \<open>
  The two masking assignments of the acromion search:
  \<^verbatim>\<open>cropped_img[:int(len(cropped_img) / 2), :] = 0\<close> and
  \<^verbatim>\<open>cropped_img[:, :int(len(cropped_img[0]) / 2)] = 0\<close>; the second reads row 0 and raises
  \<^verbatim>\<open>IndexError\<close> on a crop without rows.
\<close>

definition mask_top :: "raster \<Rightarrow> raster" where
  "mask_top img = img\<lparr>val := (\<lambda>x y ch. if x < rows img div 2 then 0 else val img x y ch)\<rparr>"

definition mask_left :: "raster \<Rightarrow> error + raster" where
  "mask_left img =
     (if rows img = 0 then Inl IndexError
      else Inr (img\<lparr>val := (\<lambda>x y ch. if y < cols img div 2 then 0 else val img x y ch)\<rparr>))"

text \<open>
  \<^verbatim>\<open>_find_acromion_right\<close> and \<^verbatim>\<open>_find_acromion_left\<close> (\<^verbatim>\<open>im2meas.py\<close> lines 675--681 and
  724--730); \<open>data\<close> maps a keypoint index to its \<open>(x, y)\<close>.
\<close>

definition find_acromion_right :: "raster \<Rightarrow> (nat \<Rightarrow> real \<times> real) \<Rightarrow> error + real \<times> real" where
  "find_acromion_right edges data =
     (let r_ear = data 4; r_shoulder = data 6;
          cropped_img = crop edges r_ear r_shoulder;
          cropped_img = mask_top cropped_img
      in case mask_left cropped_img of
           Inl e \<Rightarrow> Inl e
         | Inr cropped_img \<Rightarrow>
             (case np_where cropped_img (\<lambda>v. v = 255) of
                [] \<Rightarrow> Inl IndexError
              | (x, y, ch) # _ \<Rightarrow> Inr (fst r_ear - real y, snd r_ear + real x)))"

definition find_acromion_left :: "raster \<Rightarrow> (nat \<Rightarrow> real \<times> real) \<Rightarrow> error + real \<times> real" where
  "find_acromion_left edges data =
     (let l_ear = data 3; l_shoulder = data 5;
          cropped_img = crop edges l_ear l_shoulder;
          cropped_img = mask_top cropped_img
      in case mask_left cropped_img of
           Inl e \<Rightarrow> Inl e
         | Inr cropped_img \<Rightarrow>
             (case np_where cropped_img (\<lambda>v. v = 255) of
                [] \<Rightarrow> Inl IndexError
              | (x, y, ch) # _ \<Rightarrow> Inr (fst l_ear + real y, snd l_ear + real x)))"

text \<open>\<^verbatim>\<open>_get_crotch_right_left\<close> (\<^verbatim>\<open>im2meas.py\<close> lines 621--627).\<close>

definition get_crotch_right_left ::
  "raster \<Rightarrow> (nat \<Rightarrow> real \<times> real) \<Rightarrow> error + (real \<times> real) \<times> (real \<times> real)" where
  "get_crotch_right_left edges data =
     (let crotch_zone = crop edges (data 12) (data 13)
      in case np_where crotch_zone (\<lambda>v. v \<noteq> 0) of
           [] \<Rightarrow> Inl IndexError
         | [first] \<Rightarrow> Inl IndexError
         | (x0, y0, ch0) # (x1, y1, ch1) # _ \<Rightarrow>
             (let crotch_approx_crop = (y0, x1);
                  crotch_approx_right = (fst (data 12), snd (data 12) + real (snd crotch_approx_crop));
                  crotch_approx_left = (fst (data 11), snd (data 11) + real (snd crotch_approx_crop))
              in Inr (crotch_approx_right, crotch_approx_left)))"

text \<open>Landmarks at two opposite corners of a 4 x 4 raster.\<close>

definition corner_data :: "nat \<Rightarrow> real \<times> real" where
  "corner_data i = (if i = 3 \<or> i = 4 \<or> i = 12 then (0, 0) else (4, 4))"

section \<open>Properties of the ray cast and of the numerical helpers\<close>

declare find_edge_loop.simps [simp del]

lemma find_edge_loop_step:
  "find_edge_loop edges p a d =
     (if ray_out edges p a d then []
      else if ray_hit edges p a d then [ray_save p a d]
      else find_edge_loop edges p a (d + 1 / 100))"
  by (subst find_edge_loop.simps) (simp add: ray_out_def ray_hit_def ray_save_def split: prod.splits)

lemma march_skip:
  "(\<And>k. k < n \<Longrightarrow> \<not> ray_out edges p a (d + real k / 100) \<and> \<not> ray_hit edges p a (d + real k / 100))
   \<Longrightarrow> find_edge_loop edges p a d = find_edge_loop edges p a (d + real n / 100)"
proof (induction n arbitrary: d)
  case 0
  show ?case by simp
next
  case (Suc n)
  have "\<not> ray_out edges p a d \<and> \<not> ray_hit edges p a d"
    using Suc.prems[of 0] by simp
  then have "find_edge_loop edges p a d = find_edge_loop edges p a (d + 1 / 100)"
    by (subst find_edge_loop_step) simp
  also have "\<dots> = find_edge_loop edges p a (d + 1 / 100 + real n / 100)"
  proof (rule Suc.IH)
    fix k assume "k < n"
    then show "\<not> ray_out edges p a (d + 1 / 100 + real k / 100) \<and>
               \<not> ray_hit edges p a (d + 1 / 100 + real k / 100)"
      using Suc.prems[of "Suc k"] by (simp add: add_divide_distrib algebra_simps)
  qed
  finally show ?case by (simp add: add_divide_distrib algebra_simps)
qed

lemma march_miss:
  assumes "\<And>k. k < n \<Longrightarrow> \<not> ray_out edges p a (real k / 100) \<and> \<not> ray_hit edges p a (real k / 100)"
    and "ray_out edges p a (real n / 100)"
  shows "find_edge p p2 a edges = []"
proof -
  have "find_edge_loop edges p a 0 = find_edge_loop edges p a (0 + real n / 100)"
    by (rule march_skip) (use assms(1) in simp)
  then show ?thesis using assms(2)
    by (simp add: find_edge_def find_edge_loop_step[of edges p a "real n / 100"])
qed

lemma march_hit:
  assumes "\<And>k. k < n \<Longrightarrow> \<not> ray_out edges p a (real k / 100) \<and> \<not> ray_hit edges p a (real k / 100)"
    and "\<not> ray_out edges p a (real n / 100)" and "ray_hit edges p a (real n / 100)"
  shows "find_edge p p2 a edges = [ray_save p a (real n / 100)]"
proof -
  have "find_edge_loop edges p a 0 = find_edge_loop edges p a (0 + real n / 100)"
    by (rule march_skip) (use assms(1) in simp)
  then show ?thesis using assms(2,3)
    by (simp add: find_edge_def find_edge_loop_step[of edges p a "real n / 100"])
qed

lemma march_stops:
  "\<exists>n. (\<forall>k<n. \<not> ray_out edges p a (d + real k / 100) \<and> \<not> ray_hit edges p a (d + real k / 100))
     \<and> (if ray_out edges p a (d + real n / 100) then find_edge_loop edges p a d = []
        else ray_hit edges p a (d + real n / 100)
           \<and> find_edge_loop edges p a d = [ray_save p a (d + real n / 100)])"
proof (induction edges p a d rule: find_edge_loop.induct)
  case (1 edges p a d)
  show ?case
  proof (cases "ray_out edges p a d \<or> ray_hit edges p a d")
    case True
    then show ?thesis
      by (intro exI[of _ 0]) (auto simp: find_edge_loop_step[of edges p a d])
  next
    case False
    then have cont: "find_edge_loop edges p a d = find_edge_loop edges p a (d + 0.01)"
      by (subst find_edge_loop_step) simp
    from False have "\<exists>n. (\<forall>k<n. \<not> ray_out edges p a (d + 0.01 + real k / 100)
                              \<and> \<not> ray_hit edges p a (d + 0.01 + real k / 100))
        \<and> (if ray_out edges p a (d + 0.01 + real n / 100) then find_edge_loop edges p a (d + 0.01) = []
           else ray_hit edges p a (d + 0.01 + real n / 100)
              \<and> find_edge_loop edges p a (d + 0.01) = [ray_save p a (d + 0.01 + real n / 100)])"
      by (intro "1.IH"[of "pt_from p a d" "fst (pt_from p a d)" "snd (pt_from p a d)"])
         (auto simp: ray_out_def ray_hit_def split: prod.splits)
    then obtain n where n: "\<forall>k<n. \<not> ray_out edges p a (d + 0.01 + real k / 100)
                              \<and> \<not> ray_hit edges p a (d + 0.01 + real k / 100)"
        "if ray_out edges p a (d + 0.01 + real n / 100) then find_edge_loop edges p a (d + 0.01) = []
           else ray_hit edges p a (d + 0.01 + real n / 100)
              \<and> find_edge_loop edges p a (d + 0.01) = [ray_save p a (d + 0.01 + real n / 100)]"
      by blast
    have shift: "d + 0.01 + real k / 100 = d + real (Suc k) / 100" for k
      by (simp add: add_divide_distrib)
    have "\<forall>k<Suc n. \<not> ray_out edges p a (d + real k / 100) \<and> \<not> ray_hit edges p a (d + real k / 100)"
    proof (intro allI impI)
      fix k assume "k < Suc n"
      show "\<not> ray_out edges p a (d + real k / 100) \<and> \<not> ray_hit edges p a (d + real k / 100)"
      proof (cases k)
        case 0
        then show ?thesis using False by simp
      next
        case (Suc j)
        then have "j < n" using \<open>k < Suc n\<close> by simp
        then show ?thesis using n(1) unfolding shift Suc by blast
      qed
    qed
    then show ?thesis
      using n(2) unfolding shift cont by (intro exI[of _ "Suc n"]) simp
  qed
qed

lemma find_edge_cases:
  "find_edge p p2 a edges = [] \<or>
   (\<exists>n. \<not> ray_out edges p a (real n / 100) \<and> ray_hit edges p a (real n / 100)
        \<and> find_edge p p2 a edges = [ray_save p a (real n / 100)])"
  using march_stops[of edges p a 0] unfolding find_edge_def
  by (auto split: if_splits)

lemma no_boundary_miss:
  assumes "\<And>x y. \<not> hit_zone edges x y"
  shows "find_edge p p2 a edges = []"
  using find_edge_cases[of p p2 a edges] assms
  by (auto simp: ray_hit_def split: prod.splits)

lemma get_maximum_no_boundary:
  assumes "\<And>x y. \<not> hit_zone edges x y"
  shows "get_maximum start endp edges angle is_start = Inr 0"
  by (simp add: get_maximum_def Let_def no_boundary_miss[OF assms] np_sub_def np_norm_def
      split: prod.splits)

lemma py_int_nonneg: "0 \<le> v \<Longrightarrow> py_int v = \<lfloor>v\<rfloor>"
  by (simp add: py_int_def)

lemma py_int_unit: "- 1 < v \<Longrightarrow> v < 1 \<Longrightarrow> py_int v = 0"
  unfolding py_int_def by (auto simp: floor_eq_iff ceiling_eq_iff)

lemma blank_not_hit: "\<not> hit_zone (blank r c) x y"
  by (simp add: hit_zone_def blank_def)

lemma left_edge_right_ray:
  assumes "0 \<le> r" "r < 1"
  shows "find_edge (r, 1) p2 (pi / 2) left_edge = []"
proof (rule march_miss[where n = 100])
  have r: "\<lfloor>r\<rfloor> = 0" using assms by (simp add: floor_eq_iff)
  fix k :: nat assume k: "k < 100"
  have "\<lfloor>1 + real k / 100\<rfloor> = 1" using k by (simp add: floor_eq_iff)
  then show "\<not> ray_out left_edge (r, 1) (pi / 2) (real k / 100) \<and>
        \<not> ray_hit left_edge (r, 1) (pi / 2) (real k / 100)"
    using assms r
    by (simp add: ray_out_def ray_hit_def pt_from_def py_int_def out_of_bounds_def hit_zone_def
        left_edge_def)
next
  have r: "\<lfloor>r\<rfloor> = 0" using assms by (simp add: floor_eq_iff)
  show "ray_out left_edge (r, 1) (pi / 2) (real 100 / 100)"
    using assms r by (simp add: ray_out_def pt_from_def py_int_def out_of_bounds_def left_edge_def)
qed

lemma left_edge_left_ray:
  assumes "0 \<le> r" "r < 1"
  shows "find_edge (r, 1) p2 (- (pi / 2)) left_edge = [(0, 0)]"
proof -
  have f: "\<lfloor>1 - 1 / (100::real)\<rfloor> = 0" by (simp add: floor_eq_iff)
  have r: "\<lfloor>r\<rfloor> = 0" using assms by (simp add: floor_eq_iff)
  have "find_edge (r, 1) p2 (- (pi / 2)) left_edge = [ray_save (r, 1) (- (pi / 2)) (real 1 / 100)]"
  proof (rule march_hit[where n = 1])
    fix k :: nat assume "k < 1"
    then have "k = 0" by simp
    then show "\<not> ray_out left_edge (r, 1) (- (pi / 2)) (real k / 100) \<and>
        \<not> ray_hit left_edge (r, 1) (- (pi / 2)) (real k / 100)"
      using assms r
      by (simp add: ray_out_def ray_hit_def pt_from_def py_int_def out_of_bounds_def hit_zone_def
          left_edge_def)
  next
    show "\<not> ray_out left_edge (r, 1) (- (pi / 2)) (real 1 / 100)"
      using f r assms
      by (simp add: ray_out_def pt_from_def py_int_def out_of_bounds_def left_edge_def)
    show "ray_hit left_edge (r, 1) (- (pi / 2)) (real 1 / 100)"
      using f r assms by (simp add: ray_hit_def pt_from_def py_int_def hit_zone_def left_edge_def)
  qed
  then show ?thesis using f r assms by (simp add: ray_save_def pt_from_def py_int_def)
qed





















lemma samples_eq:
  "map (\<lambda>(x, y). (y, x)) (zip (linspace (fst start) (fst endp) 100) (linspace (snd start) (snd endp) 100))
     = map (sample_rc start endp) [0..<100]"
  by (simp add: linspace_def zip_map_map zip_same_conv_map sample_rc_def comp_def del: upt_Suc)

lemma get_maximum_range_concat:
  "get_maximum_range a ps edges = concat (map (\<lambda>p. find_edge p p2 a edges) ps)"
  by (induction ps) (simp_all add: find_edge_def)

lemma get_maximum_range_all_hit:
  assumes "\<And>i. i < n \<Longrightarrow> find_edge (f i) p2 a edges = [g i]"
  shows "get_maximum_range a (map f [0..<n]) edges = map g [0..<n]"
proof -
  have "map (\<lambda>p. find_edge p p2 a edges) (map f [0..<n]) = map (\<lambda>i. [g i]) [0..<n]"
    using assms by simp
  then have "get_maximum_range a (map f [0..<n]) edges = concat (map (\<lambda>i. [g i]) [0..<n])"
    by (simp only: get_maximum_range_concat[of a _ edges p2])
  also have "\<dots> = map g [0..<n]"
    by (induction n) simp_all
  finally show ?thesis .
qed

lemma get_maximum_range_all_miss:
  assumes "\<And>p. p \<in> set ps \<Longrightarrow> find_edge p p2 a edges = []"
  shows "get_maximum_range a ps edges = []"
  using assms by (simp add: get_maximum_range_concat[of a ps edges p2])

lemma point_functions_unfold:
  "get_maximum_point start endp edges =
     (let result = map (sample_rc start endp) [0..<100];
          r_side = get_maximum_range (vector_angle_plus (snd start, fst start) (snd endp, fst endp)) result edges;
          l_side = get_maximum_range (vector_angle_minus (snd start, fst start) (snd endp, fst endp)) result edges
      in case get_max_approx r_side l_side of Inl e \<Rightarrow> Inl e | Inr index \<Rightarrow> sample_at result index)"
  "YeadonModel_get_maximum_point start endp edges =
     (let result = map (sample_rc start endp) [0..<100];
          r_side = get_maximum_range (vector_angle_plus (snd start, fst start) (snd endp, fst endp)) result edges;
          l_side = get_maximum_range (vector_angle_minus (snd start, fst start) (snd endp, fst endp)) result edges
      in case get_max_approx_nested r_side l_side of Inl e \<Rightarrow> Inl e | Inr index \<Rightarrow> sample_at result index)"
  unfolding get_maximum_point_def YeadonModel_get_maximum_point_def get_points_def Let_def
  by (simp_all only: prod.case fst_conv snd_conv samples_eq)

lemma left_edge_samples:
  assumes "i < 100"
  shows "find_edge (sample_rc (1, 0) (1, 1 / 2) i) p2 (pi / 2) left_edge = []"
    and "find_edge (sample_rc (1, 0) (1, 1 / 2) i) p2 (- (pi / 2)) left_edge = [(0, 0)]"
proof -
  have "sample_rc (1, 0) (1, 1 / 2) i = (real i * (1 / 2 / 99), 1)"
    by (simp add: sample_rc_def)
  moreover have "0 \<le> real i * (1 / 2 / 99)" "real i * (1 / 2 / 99) < 1"
    using assms by simp_all
  ultimately show "find_edge (sample_rc (1, 0) (1, 1 / 2) i) p2 (pi / 2) left_edge = []"
    and "find_edge (sample_rc (1, 0) (1, 1 / 2) i) p2 (- (pi / 2)) left_edge = [(0, 0)]"
    using left_edge_right_ray left_edge_left_ray by simp_all
qed

lemma left_edge_sides:
  "get_maximum_range (pi / 2) (map (sample_rc (1, 0) (1, 1 / 2)) [0..<100]) left_edge = []"
  "get_maximum_range (- (pi / 2)) (map (sample_rc (1, 0) (1, 1 / 2)) [0..<100]) left_edge
     = map (\<lambda>i. (0, 0)) [0..<100]"
proof -
  show "get_maximum_range (pi / 2) (map (sample_rc (1, 0) (1, 1 / 2)) [0..<100]) left_edge = []"
    by (rule get_maximum_range_all_miss[where ?p2.0 = "(0, 0)"]) (auto simp: left_edge_samples)
  show "get_maximum_range (- (pi / 2)) (map (sample_rc (1, 0) (1, 1 / 2)) [0..<100]) left_edge
     = map (\<lambda>i. (0, 0)) [0..<100]"
    by (rule get_maximum_range_all_hit[where ?p2.0 = "(0, 0)"]) (simp add: left_edge_samples)
qed
















lemma py_int_of_int [simp]: "py_int (real_of_int z) = z"
  by (simp add: py_int_def)

lemma py_int_numerals [simp]: "py_int 0 = 0" "py_int 1 = 1" "py_int 2 = 2"
  by (simp_all add: py_int_def)







lemma pit_climb_no_boundary:
  assumes nb: "\<And>x y. \<not> hit_zone edges x y"
  shows "pit_climb edges point point2 step angle [] = None"
proof -
  have "(\<forall>x y. \<not> hit_zone e x y) \<longrightarrow> ms \<noteq> []" if "pit_climb e p p2 st a ms = Some r"
    for e p p2 st a ms r
  proof (rule pit_climb.raw_induct[where P = "\<lambda>e p p2 st a ms r. (\<forall>x y. \<not> hit_zone e x y) \<longrightarrow> ms \<noteq> []",
        OF _ that])
    fix climb e p p2 st a ms r
    assume IH: "\<And>e p p2 st a ms r. climb e p p2 st a ms = Some r
                  \<Longrightarrow> (\<forall>x y. \<not> hit_zone e x y) \<longrightarrow> ms \<noteq> []"
      and step: "(let angle' = a + st; max_last = find_edge p p2 angle' e
                  in if np_norm max_last < np_norm ms then Some (max_last, ms)
                     else climb e p p2 st angle' max_last) = Some r"
    show "(\<forall>x y. \<not> hit_zone e x y) \<longrightarrow> ms \<noteq> []"
    proof (intro impI notI)
      assume blank: "\<forall>x y. \<not> hit_zone e x y" and "ms = []"
      have "find_edge p p2 (a + st) e = []"
        by (rule no_boundary_miss) (use blank in blast)
      then have "climb e p p2 st (a + st) [] = Some r"
        using step \<open>ms = []\<close> by (simp add: Let_def)
      from IH[OF this] blank show False by blast
    qed
  qed
  then have "pit_climb edges point point2 step angle [] \<noteq> Some r" for r
    using nb by blast
  then show ?thesis by (cases "pit_climb edges point point2 step angle []") auto
qed

lemma get_maximum_pit_no_boundary:
  assumes "\<And>x y. \<not> hit_zone edges x y"
  shows "get_maximum_pit start edges = None"
  by (simp add: get_maximum_pit_def Let_def no_boundary_miss[OF assms] pit_climb_no_boundary[OF assms])

lemma pit_climb_Some:
  assumes "pit_climb edges point point2 step angle max_save = Some r"
    and "max_save = find_edge point point2 angle edges"
  shows "\<exists>n\<ge>1. fst r = find_edge point point2 (angle + real n * step) edges
            \<and> snd r = find_edge point point2 (angle + real (n - 1) * step) edges
            \<and> np_norm (find_edge point point2 (angle + real n * step) edges)
                < np_norm (find_edge point point2 (angle + real (n - 1) * step) edges)
            \<and> (\<forall>k. 1 \<le> k \<and> k < n \<longrightarrow>
                  np_norm (find_edge point point2 (angle + real (k - 1) * step) edges)
                    \<le> np_norm (find_edge point point2 (angle + real k * step) edges))"
proof -
  let ?P = "\<lambda>e p p2 st a ms r. ms = find_edge p p2 a e \<longrightarrow>
      (\<exists>n\<ge>1. fst r = find_edge p p2 (a + real n * st) e
            \<and> snd r = find_edge p p2 (a + real (n - 1) * st) e
            \<and> np_norm (find_edge p p2 (a + real n * st) e)
                < np_norm (find_edge p p2 (a + real (n - 1) * st) e)
            \<and> (\<forall>k. 1 \<le> k \<and> k < n \<longrightarrow>
                  np_norm (find_edge p p2 (a + real (k - 1) * st) e)
                    \<le> np_norm (find_edge p p2 (a + real k * st) e)))"
  have "?P edges point point2 step angle max_save r"
  proof (rule pit_climb.raw_induct[where P = ?P, OF _ assms(1)])
    fix climb e p p2 st a ms r
    assume IH: "\<And>e p p2 st a ms r. climb e p p2 st a ms = Some r \<Longrightarrow> ?P e p p2 st a ms r"
      and step: "(let angle' = a + st; max_last = find_edge p p2 angle' e
                  in if np_norm max_last < np_norm ms then Some (max_last, ms)
                     else climb e p p2 st angle' max_last) = Some r"
    show "?P e p p2 st a ms r"
    proof (intro impI)
      assume ms: "ms = find_edge p p2 a e"
      let ?H = "\<lambda>k. find_edge p p2 (a + real k * st) e"
      show "\<exists>n\<ge>1. fst r = ?H n \<and> snd r = ?H (n - 1) \<and> np_norm (?H n) < np_norm (?H (n - 1))
              \<and> (\<forall>k. 1 \<le> k \<and> k < n \<longrightarrow> np_norm (?H (k - 1)) \<le> np_norm (?H k))"
      proof (cases "np_norm (find_edge p p2 (a + st) e) < np_norm ms")
        case True
        then have "r = (find_edge p p2 (a + st) e, ms)" using step by (simp add: Let_def)
        then show ?thesis using True ms by (intro exI[of _ 1]) simp
      next
        case False
        then have rec: "climb e p p2 st (a + st) (find_edge p p2 (a + st) e) = Some r"
          using step by (simp add: Let_def)
        have G: "find_edge p p2 (a + st + real k * st) e = ?H (Suc k)" for k
          by (simp add: algebra_simps)
        from IH[OF rec] obtain n where n: "1 \<le> n"
          "fst r = ?H (Suc n)"
          "snd r = ?H (Suc (n - 1))"
          "np_norm (?H (Suc n)) < np_norm (?H (Suc (n - 1)))"
          "\<forall>k. 1 \<le> k \<and> k < n \<longrightarrow> np_norm (?H (Suc (k - 1))) \<le> np_norm (?H (Suc k))"
          unfolding G by blast
        have "\<forall>k. 1 \<le> k \<and> k < Suc n \<longrightarrow> np_norm (?H (k - 1)) \<le> np_norm (?H k)"
        proof (intro allI impI)
          fix k assume k: "1 \<le> k \<and> k < Suc n"
          show "np_norm (?H (k - 1)) \<le> np_norm (?H k)"
          proof (cases "k = 1")
            case True
            then show ?thesis using False ms by simp
          next
            case k1: False
            then obtain j where j: "k = Suc j" "1 \<le> j" "j < n" using k by (cases k) auto
            then have "np_norm (?H (Suc (j - 1))) \<le> np_norm (?H (Suc j))"
              using n(5) by blast
            moreover have "Suc (j - 1) = j" using j(2) by simp
            ultimately show ?thesis unfolding j(1) by simp
          qed
        qed
        moreover have "Suc (n - 1) = n" using n(1) by simp
        then have "fst r = ?H (Suc n)" "snd r = ?H (Suc n - 1)"
          "np_norm (?H (Suc n)) < np_norm (?H (Suc n - 1))"
          using n(2,3,4) by simp_all
        ultimately show ?thesis by (intro exI[of _ "Suc n"]) simp
      qed
    qed
  qed
  then show ?thesis using assms(2) by blast
qed

lemma sin_hundredth: "199 / 20000 \<le> sin (1 / 100 :: real)"
proof -
  have "\<bar>sin (1 / 100 :: real) - (\<Sum>m<2. sin_coeff m * (1 / 100) ^ m)\<bar>
          \<le> inverse (fact 2) * \<bar>1 / 100 :: real\<bar> ^ 2"
    by (rule Maclaurin_sin_bound)
  moreover have "(\<Sum>m<2. sin_coeff m * (1 / 100 :: real) ^ m) = 1 / 100"
    by (simp add: lessThan_Suc numeral_2_eq_2 sin_coeff_def)
  ultimately have "\<bar>sin (1 / 100 :: real) - 1 / 100\<bar> \<le> 1 / 20000"
    by (simp add: power2_eq_square)
  then show ?thesis by linarith
qed

lemma py_int_pos: "py_int v = z \<Longrightarrow> 0 < z \<Longrightarrow> real_of_int z \<le> v \<and> v < real_of_int z + 1"
  unfolding py_int_def by (auto split: if_splits simp: floor_eq_iff)

lemma pit_raster_hit: "hit_zone pit_raster x y \<longleftrightarrow> nat x = 60 \<and> nat y = 80"
  by (auto simp: hit_zone_def pit_raster_def)

lemma pit_side_miss:
  assumes s: "199 / 20000 \<le> \<bar>s\<bar>" and c: "c \<le> 1" and d: "0 \<le> (d::real)"
  shows "\<not> (py_int (c * d) = 60 \<and> py_int (161 / 2 + s * d) = 80)"
proof
  assume a: "py_int (c * d) = 60 \<and> py_int (161 / 2 + s * d) = 80"
  then have "60 \<le> c * d" using py_int_pos[of "c * d" 60] by simp
  moreover have "c * d \<le> 1 * d" by (rule mult_right_mono[OF c d])
  ultimately have d60: "60 \<le> d" by simp
  have "199 / 20000 * 60 \<le> \<bar>s\<bar> * d"
    by (rule mult_mono[OF s d60]) (use d in simp_all)
  then have big: "1 / 2 < \<bar>s * d\<bar>" using d by (simp add: abs_mult)
  from a have "80 \<le> 161 / 2 + s * d \<and> 161 / 2 + s * d < 81"
    using py_int_pos[of "161 / 2 + s * d" 80] by simp
  then show False using big by linarith
qed

lemma pit_ray_miss:
  assumes "199 / 20000 \<le> \<bar>sin a\<bar>"
  shows "find_edge (0, 161 / 2) p2 a pit_raster = []"
proof (rule ccontr)
  assume "find_edge (0, 161 / 2) p2 a pit_raster \<noteq> []"
  then obtain n where n: "\<not> ray_out pit_raster (0, 161 / 2) a (real n / 100)"
      "ray_hit pit_raster (0, 161 / 2) a (real n / 100)"
    using find_edge_cases[of "(0, 161 / 2)" p2 a pit_raster] by blast
  let ?x = "py_int (cos a * (real n / 100))" and ?y = "py_int (161 / 2 + sin a * (real n / 100))"
  from n have "0 \<le> ?x" "0 \<le> ?y" "nat ?x = 60" "nat ?y = 80"
    by (simp_all add: ray_out_def ray_hit_def pt_from_def out_of_bounds_def pit_raster_hit)
  then have "?x = 60 \<and> ?y = 80" by linarith
  moreover have "\<not> (?x = 60 \<and> ?y = 80)"
    by (rule pit_side_miss[OF assms]) simp_all
  ultimately show False by blast
qed

lemma pit_ray_down: "find_edge (0, 161 / 2) p2 0 pit_raster = [(80, 60)]"
proof -
  have fl: "\<lfloor>real k / 100\<rfloor> = int (k div 100)" for k :: nat
    using floor_divide_of_nat_eq[of k 100, where ?'a = real] by simp
  have "find_edge (0, 161 / 2) p2 0 pit_raster = [ray_save (0, 161 / 2) 0 (real 6000 / 100)]"
  proof (rule march_hit[where n = 6000])
    fix k :: nat assume k: "k < 6000"
    then have "k div 100 < 60" by simp
    then show "\<not> ray_out pit_raster (0, 161 / 2) 0 (real k / 100) \<and>
        \<not> ray_hit pit_raster (0, 161 / 2) 0 (real k / 100)"
      by (simp add: ray_out_def ray_hit_def pt_from_def py_int_def fl out_of_bounds_def
          pit_raster_hit) (simp add: pit_raster_def)
  next
    show "\<not> ray_out pit_raster (0, 161 / 2) 0 (real 6000 / 100)"
      by (simp add: ray_out_def pt_from_def py_int_def out_of_bounds_def pit_raster_def)
    show "ray_hit pit_raster (0, 161 / 2) 0 (real 6000 / 100)"
      by (simp add: ray_hit_def pt_from_def py_int_def pit_raster_hit)
  qed
  then show ?thesis by (simp add: ray_save_def pt_from_def py_int_def)
qed

lemma pit_raster_result:
  "get_maximum_pit (161 / 2, 0) pit_raster = Some (Inr ((80, 60), 100))"
proof -
  have up: "find_edge (0, 161 / 2) p2 (1 / 100) pit_raster = []" for p2
    by (rule pit_ray_miss) (use sin_hundredth in simp)
  have dn: "find_edge (0, 161 / 2) p2 (- (1 / 100)) pit_raster = []" for p2
    by (rule pit_ray_miss) (use sin_hundredth in simp)
  have n0: "np_norm [(80, 60)] = 100"
  proof -
    have "np_norm [(80, 60)] = sqrt (100\<^sup>2)" by (simp add: np_norm_def)
    then show ?thesis by simp
  qed
  have c1: "pit_climb pit_raster (0, 161 / 2) p2 (1 / 100) 0 [(80, 60)] = Some ([], [(80, 60)])" for p2
    by (subst pit_climb.simps) (simp add: up n0 np_norm_def[of "[]"])
  have c2: "pit_climb pit_raster (0, 161 / 2) p2 (- (1 / 100)) 0 [(80, 60)] = Some ([], [(80, 60)])" for p2
    by (subst pit_climb.simps) (simp add: dn n0 np_norm_def[of "[]"])
  show ?thesis
    by (simp add: get_maximum_pit_def arctan2_def pit_ray_down c1 c2 np_sub_def py_max_def n0
        py_int_def)
qed

lemma find_edge_short: "find_edge p p2 a edges = [] \<or> (\<exists>h. find_edge p p2 a edges = [h])"
  using find_edge_cases[of p p2 a edges] by blast

lemma np_norm_single: "np_norm [p] = sqrt (real_of_int ((fst p)\<^sup>2 + (snd p)\<^sup>2))"
  by (simp add: np_norm_def)

lemma np_where_none:
  assumes "\<And>x y ch. \<not> cond (val im x y ch)"
  shows "np_where im cond = []"
  by (simp add: np_where_def assms)

lemma crop_blank_val: "val (crop (blank r c) p q) x y ch = 0"
  by (simp add: crop_def blank_def Let_def split: prod.splits)

lemma acromion_blank:
  "find_acromion_right (blank r c) data = Inl IndexError"
  "find_acromion_left (blank r c) data = Inl IndexError"
proof -
  have w: "np_where (img\<lparr>val := (\<lambda>x y ch. if y < n then 0 else val (mask_top (crop (blank r c) p q)) x y ch)\<rparr>)
             (\<lambda>v. v = 255) = []" for img n p q
    by (rule np_where_none) (simp add: mask_top_def crop_blank_val)
  show "find_acromion_right (blank r c) data = Inl IndexError"
    by (simp add: find_acromion_right_def Let_def mask_left_def w)
  show "find_acromion_left (blank r c) data = Inl IndexError"
    by (simp add: find_acromion_left_def Let_def mask_left_def w)
qed

lemma crotch_blank: "get_crotch_right_left (blank r c) data = Inl IndexError"
proof -
  have "np_where (crop (blank r c) p q) (\<lambda>v. v \<noteq> 0) = []" for p q
    by (rule np_where_none) (simp add: crop_blank_val)
  then show ?thesis by (simp add: get_crotch_right_left_def)
qed

section \<open>The claims\<close>

text \<open>
  C1. The claim: the width functions return a nonnegative distance or a bounds-miss sentinel
  when a ray misses, never a silent zero and never an escaping exception. The code has no
  such guard: \<^verbatim>\<open>_get_maximum\<close> feeds the lists of \<^verbatim>\<open>find_edge\<close> to
  \<^verbatim>\<open>np.linalg.norm(np.array(max1) - np.array(max2))\<close> as they come. On a raster without a
  boundary pixel both rays miss and both width functions return \<open>0.0\<close>; on the raster
  \<open>left_edge\<close> one ray hits and the other misses, and both raise \<^verbatim>\<open>ValueError\<close>.
\<close>

theorem get_maximum_unguarded_miss:
  "get_maximum_line (0, 0) (1, 0) (blank 1 1) = Inr 0
   \<and> get_maximum_start (0, 0) (0, 1) (blank 1 1) = Inr 0
   \<and> get_maximum_line (1, 0) (2, 0) left_edge = Inl ValueError
   \<and> get_maximum_start (1, 0) (1, 1) left_edge = Inl ValueError"
proof -
  have a: "get_maximum_line (1, 0) (2, 0) left_edge = Inl ValueError"
    by (simp add: get_maximum_line_def get_maximum_def get_points_def arctan2_def
        left_edge_right_ray left_edge_left_ray np_sub_def)
  have b: "get_maximum_start (1, 0) (1, 1) left_edge = Inl ValueError"
    by (simp add: get_maximum_start_def get_maximum_def get_points_def arctan2_def
        left_edge_right_ray left_edge_left_ray np_sub_def)
  show ?thesis
    using a b by (simp add: get_maximum_line_def get_maximum_start_def
        get_maximum_no_boundary[OF blank_not_hit])
qed






text \<open>
  C8. \<^verbatim>\<open>_stadium_perimeter(width, depth)\<close> is \<open>2 * (pi * depth/2 + (width - depth))\<close> and
  \<^verbatim>\<open>_circle_perimeter(diameter)\<close> is \<open>pi * diameter\<close>; hence a stadium whose width equals
  its depth has the perimeter of the circle of that diameter, and the stadium of width 20 and
  depth 10 has perimeter \<open>10 * pi + 20\<close>. The equations hold for all real inputs, the
  nonnegative ones included.
\<close>

theorem perimeter_formulas:
  "stadium_perimeter width depth = 2 * (pi * depth / 2 + (width - depth))
   \<and> circle_perimeter diameter = pi * diameter
   \<and> stadium_perimeter d d = circle_perimeter d
   \<and> stadium_perimeter 20 10 = 10 * pi + 20"
  by (simp add: stadium_perimeter_def circle_perimeter_def)




text \<open>
  C5. The claim: sides of different lengths are reported as a contract violation of that one
  measurement, without a crash. The code detects the mismatch (\<^verbatim>\<open>get_max_approx\<close> prints a
  message and returns \<^verbatim>\<open>None\<close>), but the caller then evaluates \<^verbatim>\<open>result[index]\<close> with
  \<^verbatim>\<open>index = None\<close>, which raises \<^verbatim>\<open>TypeError\<close>; nothing in \<^verbatim>\<open>YeadonModel.__init__\<close>
  catches it. On the raster \<open>left_edge\<close>, with \<open>start = (1, 0)\<close> and \<open>endp = (1, 0.5)\<close>, all
  100 rays toward column 2 miss and all 100 rays toward column 0 hit.
\<close>

theorem get_maximum_point_length_mismatch:
  "get_maximum_point (1, 0) (1, 1 / 2) left_edge = Inl TypeError
   \<and> YeadonModel_get_maximum_point (1, 0) (1, 1 / 2) left_edge = Inl TypeError"
proof -
  have ang: "vector_angle_plus (0, 1) (1 / 2, 1) = pi / 2"
            "vector_angle_minus (0, 1) (1 / 2, 1) = - (pi / 2)"
    by (simp_all add: vector_angle_plus_def vector_angle_minus_def arctan2_def)
  show ?thesis
    by (simp add: point_functions_unfold ang left_edge_sides get_max_approx_def
        get_max_approx_nested_def sample_at_def del: upt_Suc)
qed




text \<open>
  C3 (amended). Whenever \<^verbatim>\<open>get_maximum_pit\<close> returns a point \<open>p\<close> and a distance, it has made
  two greedy climbs from the initial direction (angle 0), one adding 0.01 rad per step and
  one subtracting it. Each climb compares \<^verbatim>\<open>np.linalg.norm\<close> of the cast lists, that is the
  distance of the hit pixel from the raster origin \<open>(0, 0)\<close> (0 for a miss), and stops at
  the first angle \<open>n\<close> (resp. \<open>m\<close>) whose norm is strictly smaller than that of the cast
  before it. The returned point is the hit of one of the rays cast during the two climbs,
  and the returned distance is the integer part of the norm of that point, not its distance
  from the anchor.
\<close>

theorem get_maximum_pit_climbs:
  assumes "get_maximum_pit start edges = Some (Inr (p, dst))"
  shows "\<exists>n m. 1 \<le> n \<and> 1 \<le> m
     \<and> (\<forall>k. 1 \<le> k \<and> k < n \<longrightarrow>
            np_norm (pit_hit start edges (int k - 1)) \<le> np_norm (pit_hit start edges (int k)))
     \<and> np_norm (pit_hit start edges (int n)) < np_norm (pit_hit start edges (int n - 1))
     \<and> (\<forall>k. 1 \<le> k \<and> k < m \<longrightarrow>
            np_norm (pit_hit start edges (1 - int k)) \<le> np_norm (pit_hit start edges (- int k)))
     \<and> np_norm (pit_hit start edges (- int m)) < np_norm (pit_hit start edges (1 - int m))
     \<and> (\<exists>j. - int m \<le> j \<and> j \<le> int n \<and> pit_hit start edges j = [p])
     \<and> dst = py_int (sqrt (real_of_int ((fst p)\<^sup>2 + (snd p)\<^sup>2)))"
proof -
  let ?pt = "(snd start, fst start)" and ?pt2 = "(snd start + 5, fst start)"
  let ?s0 = "find_edge ?pt ?pt2 0 edges"
  have unf: "get_maximum_pit start edges =
     (case pit_climb edges ?pt ?pt2 0.01 0 ?s0 of
           None \<Rightarrow> None
         | Some (max_last_right, max_save_right) \<Rightarrow>
             (case pit_climb edges ?pt ?pt2 (- 0.01) 0 ?s0 of
                None \<Rightarrow> None
              | Some (max_last_left, max_save_left) \<Rightarrow>
                  Some (case np_sub max_last_left max_last_right of
                          Inl e \<Rightarrow> Inl e
                        | Inr delta \<Rightarrow>
                            (case py_max max_save_left max_last_right of
                                  [] \<Rightarrow> Inl IndexError
                                | p # _ \<Rightarrow> Inr (p, py_int (np_norm (py_max max_save_left max_last_right)))))))"
    by (simp add: get_maximum_pit_def Let_def arctan2_def
        cong: option.case_cong prod.case_cong sum.case_cong)
  from assms obtain lr sr where up: "pit_climb edges ?pt ?pt2 0.01 0 ?s0 = Some (lr, sr)"
    unfolding unf by (auto split: option.splits)
  from assms up obtain ll sl where dn: "pit_climb edges ?pt ?pt2 (- 0.01) 0 ?s0 = Some (ll, sl)"
    unfolding unf by (auto split: option.splits)
  from assms obtain rest where res: "py_max sl lr = p # rest"
      "dst = py_int (np_norm (py_max sl lr))"
    unfolding unf up dn by (auto split: sum.splits list.splits)
  have Hp: "find_edge ?pt ?pt2 (0 + real k * 0.01) edges = pit_hit start edges (int k)" for k
    by (simp add: pit_hit_def)
  have Hm: "find_edge ?pt ?pt2 (0 + real k * (- 0.01)) edges = pit_hit start edges (- int k)" for k
    by (simp add: pit_hit_def)
  have i1: "int (k - 1) = int k - 1" "- int (k - 1) = 1 - int k" if "1 \<le> k" for k :: nat
    using that by simp_all
  from pit_climb_Some[OF up] obtain n where n: "1 \<le> n"
    "lr = pit_hit start edges (int n)"
    "np_norm (pit_hit start edges (int n)) < np_norm (pit_hit start edges (int (n - 1)))"
    "\<forall>k. 1 \<le> k \<and> k < n \<longrightarrow>
        np_norm (pit_hit start edges (int (k - 1))) \<le> np_norm (pit_hit start edges (int k))"
    unfolding Hp by auto
  from pit_climb_Some[OF dn] obtain m where m: "1 \<le> m"
    "sl = pit_hit start edges (- int (m - 1))"
    "np_norm (pit_hit start edges (- int m)) < np_norm (pit_hit start edges (- int (m - 1)))"
    "\<forall>k. 1 \<le> k \<and> k < m \<longrightarrow>
        np_norm (pit_hit start edges (- int (k - 1))) \<le> np_norm (pit_hit start edges (- int k))"
    unfolding Hm by auto
  have a: "\<forall>k. 1 \<le> k \<and> k < n \<longrightarrow>
            np_norm (pit_hit start edges (int k - 1)) \<le> np_norm (pit_hit start edges (int k))"
    using n(4) i1(1) by metis
  have b: "np_norm (pit_hit start edges (int n)) < np_norm (pit_hit start edges (int n - 1))"
    using n(3) i1(1)[OF n(1)] by simp
  have c: "\<forall>k. 1 \<le> k \<and> k < m \<longrightarrow>
            np_norm (pit_hit start edges (1 - int k)) \<le> np_norm (pit_hit start edges (- int k))"
    using m(4) i1(2) by metis
  have d: "np_norm (pit_hit start edges (- int m)) < np_norm (pit_hit start edges (1 - int m))"
    using m(3) i1(2)[OF m(1)] by simp
  have "py_max sl lr = sl \<or> py_max sl lr = lr" by (simp add: py_max_def)
  then obtain j where j: "j = 1 - int m \<or> j = int n" "pit_hit start edges j = p # rest"
    using res(1) n(2) m(2) i1(2)[OF m(1)] by metis
  have "pit_hit start edges j = [p]"
    using j(2) find_edge_short[of "(snd start, fst start)" "(snd start + 5, fst start)"
        "real_of_int j * 0.01" edges]
    by (auto simp: pit_hit_def)
  moreover have "- int m \<le> j \<and> j \<le> int n" using j(1) n(1) m(1) by auto
  moreover have "py_max sl lr = [p]"
    using \<open>py_max sl lr = sl \<or> py_max sl lr = lr\<close> res(1) n(2) m(2)
      find_edge_short[of "(snd start, fst start)" "(snd start + 5, fst start)" _ edges]
    by (metis list.inject list.distinct(1) pit_hit_def)
  then have "dst = py_int (sqrt (real_of_int ((fst p)\<^sup>2 + (snd p)\<^sup>2)))"
    using res(2) by (simp add: np_norm_single)
  ultimately show ?thesis using n(1) m(1) a b c d by blast
qed

text \<open>
  C3 (amended) at a concrete input: the anchor \<open>(80.5, 0)\<close> on the raster \<open>pit_raster\<close>,
  whose only boundary pixel is row 60, column 80.
\<close>

theorem get_maximum_pit_climbs_witness:
  "\<exists>n m j. 1 \<le> n \<and> 1 \<le> m \<and> - int m \<le> j \<and> j \<le> int n
      \<and> pit_hit (161 / 2, 0) pit_raster j = [(80, 60)]
      \<and> np_norm (pit_hit (161 / 2, 0) pit_raster (int n))
            < np_norm (pit_hit (161 / 2, 0) pit_raster (int n - 1))
      \<and> np_norm (pit_hit (161 / 2, 0) pit_raster (- int m))
            < np_norm (pit_hit (161 / 2, 0) pit_raster (1 - int m))"
  using get_maximum_pit_climbs[OF pit_raster_result] by blast

text \<open>
  C3 as stated fails. On \<open>pit_raster\<close> with the anchor \<open>(80.5, 0)\<close> the initial ray hits
  the pixel \<open>(x, y) = (80, 60)\<close> and the rays at \<open>+0.01\<close> and \<open>-0.01\<close> rad miss, so both
  climbs stop after one step and the function returns the point \<open>(80, 60)\<close> with the
  distance 100, the norm of the point. The distance of that point from the anchor is below
  61.
\<close>

theorem get_maximum_pit_counterexample:
  "get_maximum_pit (161 / 2, 0) pit_raster = Some (Inr ((80, 60), 100))
   \<and> sqrt ((80 - 161 / 2)\<^sup>2 + (60 - 0)\<^sup>2) < (61 :: real)"
proof -
  have "sqrt ((80 - 161 / 2)\<^sup>2 + (60 - 0)\<^sup>2) < (61 :: real)"
    by (rule real_less_lsqrt) (simp_all add: power2_eq_square)
  then show ?thesis using pit_raster_result by simp
qed

text \<open>
  C10. On a raster without boundary pixel every ray cast misses (\<^verbatim>\<open>find_edge\<close> returns the
  empty list, whose norm is 0), and \<^verbatim>\<open>get_maximum_pit\<close> does not return: the first loop
  is left only when the norm of a new cast is strictly below the norm of the saved one, and
  \<open>0 < 0\<close> never holds. This is so for every anchor, inside the raster or not.
\<close>

theorem get_maximum_pit_diverges:
  assumes "\<And>x y. \<not> hit_zone edges x y"
  shows "find_edge (snd start, fst start) p2 angle edges = []
       \<and> np_norm [] = 0
       \<and> get_maximum_pit start edges = None"
  using no_boundary_miss[OF assms] get_maximum_pit_no_boundary[OF assms]
  by (simp add: np_norm_def)

text \<open>
  C10 at a concrete input: the anchor \<open>(0, 0)\<close> lies inside the 1 x 1 raster without
  boundary pixel.
\<close>

theorem get_maximum_pit_diverges_witness:
  "\<not> out_of_bounds (blank 1 1) (py_int 0) (py_int 0)
   \<and> get_maximum_pit (0, 0) (blank 1 1) = None"
  using get_maximum_pit_diverges[of "blank 1 1" "(0, 0)" "(0, 0)" 0, OF blank_not_hit]
  by (simp add: out_of_bounds_def blank_def)

text \<open>
  C7. The claim: a region search whose crop holds no boundary pixel fails with an explicit
  empty-region condition, not with an index-out-of-range fault. The code indexes the result
  of \<^verbatim>\<open>np.where\<close> without a test: on the 4 x 4 raster of zeros, with the landmarks at the
  corners \<open>(0, 0)\<close> and \<open>(4, 4)\<close> (the crop is the whole raster, four rows and four columns),
  the acromion searches and the crotch search raise \<^verbatim>\<open>IndexError\<close>.
\<close>

theorem region_locator_empty_crop:
  "rows (crop (blank 4 4) (corner_data 4) (corner_data 6)) = 4
   \<and> cols (crop (blank 4 4) (corner_data 4) (corner_data 6)) = 4
   \<and> find_acromion_right (blank 4 4) corner_data = Inl IndexError
   \<and> find_acromion_left (blank 4 4) corner_data = Inl IndexError
   \<and> get_crotch_right_left (blank 4 4) corner_data = Inl IndexError"
proof -
  have "py_int 4 = 4" by (simp add: py_int_def)
  then have "rows (crop (blank 4 4) (corner_data 4) (corner_data 6)) = 4"
    "cols (crop (blank 4 4) (corner_data 4) (corner_data 6)) = 4"
    by (simp_all add: crop_def corner_data_def blank_def slice_index_def Let_def)
  then show ?thesis
    by (simp only: acromion_blank crotch_blank simp_thms)
qed

end
